theory Spec2Isabelle
  imports Complex_Main "HOL-Library.Product_Lexorder" "HOL-Library.List_Lexorder"
    "HOL-Library.Char_ord"
begin

section \<open>Seasonal trend detection (src/analysis/seasonal\_trends.py)\<close>

text \<open>
  The module is a class \<open>SeasonalTrendDetector\<close> over a table with the columns
  \<open>date\<close> and \<open>enrolments\<close>. The table is a list of rows here, a column is the list of
  one field, and every query is a function of the prepared table \<open>self.data\<close>.

  Numbers: \<open>enrolments\<close> is a column of 64-bit integers; a cell is an \<open>int\<close> here, and a
  sum of the column that stays an integer in the source wraps around as an \<open>int64\<close> sum
  does. Every mean, standard deviation and
  z-score is a 64-bit float in the source; it is a real number here, together with
  the three special values a float has (\<open>NaN\<close> and the two infinities), so that a
  division by zero or an undefined statistic is a value of the model as it is a value
  of the program. Rounding is not modelled.
\<close>

subsection \<open>Timestamps\<close>

datatype timestamp = Timestamp (ts_year: int) (ts_month: nat) (ts_day: nat)

definition ts_key :: "timestamp \<Rightarrow> int \<times> nat \<times> nat" where
  "ts_key t = (ts_year t, ts_month t, ts_day t)"

definition is_leap_year :: "int \<Rightarrow> bool" where
  "is_leap_year y = (if y mod 100 = 0 then y mod 400 = 0 else y mod 4 = 0)"

definition days_in_month :: "int \<Rightarrow> nat \<Rightarrow> nat" where
  "days_in_month y m =
     (if m = 2 then (if is_leap_year y then 29 else 28)
      else if m = 4 \<or> m = 6 \<or> m = 9 \<or> m = 11 then 30 else 31)"

text \<open>The dates a pandas timestamp can hold: a day of the Gregorian calendar, in a year
  from 1 to 9999.\<close>

definition valid_date :: "timestamp \<Rightarrow> bool" where
  "valid_date t =
     (1 \<le> ts_year t \<and> ts_year t \<le> 9999 \<and>
      1 \<le> ts_month t \<and> ts_month t \<le> 12 \<and>
      1 \<le> ts_day t \<and> ts_day t \<le> days_in_month (ts_year t) (ts_month t))"

subsection \<open>64-bit integers\<close>

text \<open>The value an \<open>int64\<close> holds after an operation whose exact result is \<open>x\<close>: the sums of
  numpy and pandas over an \<open>int64\<close> column wrap around and raise nothing.\<close>

definition int64 :: "int \<Rightarrow> int" where
  "int64 x = (x + 2 ^ 63) mod 2 ^ 64 - 2 ^ 63"


subsection \<open>Floats with their special values\<close>

datatype float64 = Num real | PosInf | NegInf | NaN

text \<open>Division as numpy does it on floats: it never raises; the sign of a zero is not
  modelled (a zero divisor is taken as a positive zero).\<close>

fun fl_div :: "float64 \<Rightarrow> float64 \<Rightarrow> float64" where
  "fl_div NaN _ = NaN"
| "fl_div _ NaN = NaN"
| "fl_div (Num a) (Num b) =
     (if b = 0 then (if a = 0 then NaN else if 0 < a then PosInf else NegInf)
      else Num (a / b))"
| "fl_div (Num a) PosInf = Num 0"
| "fl_div (Num a) NegInf = Num 0"
| "fl_div PosInf (Num b) = (if 0 \<le> b then PosInf else NegInf)"
| "fl_div NegInf (Num b) = (if 0 \<le> b then NegInf else PosInf)"
| "fl_div PosInf PosInf = NaN"
| "fl_div PosInf NegInf = NaN"
| "fl_div NegInf PosInf = NaN"
| "fl_div NegInf NegInf = NaN"

fun fl_sub :: "float64 \<Rightarrow> float64 \<Rightarrow> float64" where
  "fl_sub NaN _ = NaN"
| "fl_sub _ NaN = NaN"
| "fl_sub (Num a) (Num b) = Num (a - b)"
| "fl_sub (Num a) PosInf = NegInf"
| "fl_sub (Num a) NegInf = PosInf"
| "fl_sub PosInf PosInf = NaN"
| "fl_sub PosInf _ = PosInf"
| "fl_sub NegInf NegInf = NaN"
| "fl_sub NegInf _ = NegInf"

fun fl_abs :: "float64 \<Rightarrow> float64" where
  "fl_abs (Num a) = Num \<bar>a\<bar>"
| "fl_abs PosInf = PosInf"
| "fl_abs NegInf = PosInf"
| "fl_abs NaN = NaN"

text \<open>\<open>a < b\<close> on floats: every comparison with \<open>NaN\<close> is false.\<close>

fun fl_less :: "float64 \<Rightarrow> float64 \<Rightarrow> bool" where
  "fl_less (Num a) (Num b) = (a < b)"
| "fl_less (Num a) PosInf = True"
| "fl_less NegInf (Num b) = True"
| "fl_less NegInf PosInf = True"
| "fl_less _ _ = False"

text \<open>Python's \<open>min(a, b)\<close>: the second argument if it is smaller than the first,
  else the first.\<close>

definition py_min :: "float64 \<Rightarrow> float64 \<Rightarrow> float64" where
  "py_min a b = (if fl_less b a then b else a)"

text \<open>\<open>Series.mean()\<close> and \<open>Series.std()\<close> (\<open>ddof = 1\<close>) of a series without missing
  values: \<open>NaN\<close> on an empty series, and \<open>NaN\<close> for the standard deviation of fewer than
  two values.\<close>

definition mean :: "real list \<Rightarrow> float64" where
  "mean xs = (if xs = [] then NaN else Num (sum_list xs / real (length xs)))"

definition std :: "real list \<Rightarrow> float64" where
  "std xs =
     (if length xs \<le> 1 then NaN
      else Num (sqrt (sum_list (map (\<lambda>x. (x - sum_list xs / real (length xs))\<^sup>2) xs)
                       / real (length xs - 1))))"

subsection \<open>The table and its preparation\<close>

text \<open>
  A row of the table the constructor receives. The \<open>date\<close> column is either of the dtype
  \<open>datetime64\<close> (its cells are timestamps) or of the dtype \<open>object\<close> (its cells are strings
  still to be parsed); the type parameter is the type of the cells.
\<close>

record 'd input_row =
  date :: 'd
  enrolments :: int

record prepared_row = "timestamp input_row" +
  month :: nat
  quarter :: nat
  year :: int

text \<open>
  \<open>sort_values('date')\<close>: ascending by the cells of the \<open>date\<close> column as they are when it
  is called: timestamps in order of time, strings in the order of Python's strings
  (lexicographic by character code). The source leaves the sorting algorithm at the
  library's default (\<open>kind='quicksort'\<close>, which is not a stable algorithm); the order among
  rows of one date is fixed here as the order of the input, and no statement below
  depends on it.
\<close>

definition sort_values :: "timestamp input_row list \<Rightarrow> timestamp input_row list" where
  "sort_values rows = sort_key (\<lambda>r. ts_key (date r)) rows"

definition sort_values_object :: "string input_row list \<Rightarrow> string input_row list" where
  "sort_values_object rows = sort_key date rows"

text \<open>
  \<open>pd.to_datetime\<close> on a column of strings. The library guesses one format from the first
  cell and reads every cell in that format; a cell that does not fit raises. Three
  formats are modelled: ISO \<open>YYYY-MM-DD\<close>, and the two readings of \<open>NN/NN/YYYY\<close>: month
  first, unless the first field of the first cell is greater than 12, then day first.
  (Where the library cannot guess a format it falls back to parsing cell by cell; such
  columns are outside this model and count as unparseable.)
\<close>

datatype error = DateParseError | ValueError

datatype date_format = YearMonthDay | MonthDayYear | DayMonthYear

definition digit_value :: "char \<Rightarrow> nat option" where
  "digit_value c =
     map_of [(CHR ''0'', 0), (CHR ''1'', 1), (CHR ''2'', 2), (CHR ''3'', 3), (CHR ''4'', 4),
             (CHR ''5'', 5), (CHR ''6'', 6), (CHR ''7'', 7), (CHR ''8'', 8), (CHR ''9'', 9)] c"

fun number :: "string \<Rightarrow> nat \<Rightarrow> nat option" where
  "number [] acc = Some acc"
| "number (c # cs) acc =
     (case digit_value c of None \<Rightarrow> None | Some d \<Rightarrow> number cs (10 * acc + d))"

definition make_date :: "nat option \<Rightarrow> nat option \<Rightarrow> nat option \<Rightarrow> timestamp option" where
  "make_date y m d =
     (case (y, m, d) of
        (Some y', Some m', Some d') \<Rightarrow>
          (if valid_date (Timestamp (int y') m' d') then Some (Timestamp (int y') m' d')
           else None)
      | _ \<Rightarrow> None)"

definition dashed :: "string \<Rightarrow> bool" where
  "dashed s = (length s = 10 \<and> s ! 4 = CHR ''-'' \<and> s ! 7 = CHR ''-'')"

definition slashed :: "string \<Rightarrow> bool" where
  "slashed s = (length s = 10 \<and> s ! 2 = CHR ''/'' \<and> s ! 5 = CHR ''/'')"

definition guess_datetime_format :: "string \<Rightarrow> date_format option" where
  "guess_datetime_format s =
     (if dashed s then Some YearMonthDay
      else if slashed s then
        (case number (take 2 s) 0 of
           None \<Rightarrow> None
         | Some a \<Rightarrow> if a \<le> 12 then Some MonthDayYear else Some DayMonthYear)
      else None)"

fun strptime :: "date_format \<Rightarrow> string \<Rightarrow> timestamp option" where
  "strptime YearMonthDay s =
     (if dashed s
      then make_date (number (take 4 s) 0) (number (take 2 (drop 5 s)) 0) (number (drop 8 s) 0)
      else None)"
| "strptime MonthDayYear s =
     (if slashed s
      then make_date (number (drop 6 s) 0) (number (take 2 s) 0) (number (take 2 (drop 3 s)) 0)
      else None)"
| "strptime DayMonthYear s =
     (if slashed s
      then make_date (number (drop 6 s) 0) (number (take 2 (drop 3 s)) 0) (number (take 2 s) 0)
      else None)"

definition to_datetime :: "string list \<Rightarrow> error + timestamp list" where
  "to_datetime col =
     (case col of
        [] \<Rightarrow> Inr []
      | s # _ \<Rightarrow>
          (case guess_datetime_format s of
             None \<Rightarrow> Inl DateParseError
           | Some f \<Rightarrow>
               (case those (map (strptime f) col) of
                  None \<Rightarrow> Inl DateParseError
                | Some ts \<Rightarrow> Inr ts)))"

text \<open>
  \<open>_prepare_data\<close> adds the calendar columns, after converting the \<open>date\<close> column to
  timestamps if it is not of that dtype already. The columns \<open>week\<close> and \<open>day_of_year\<close>,
  which no query reads, are left out.
\<close>

definition prepare_row :: "timestamp input_row \<Rightarrow> prepared_row" where
  "prepare_row r =
     \<lparr> date = date r, enrolments = enrolments r,
       month = ts_month (date r),
       quarter = (ts_month (date r) - 1) div 3 + 1,
       year = ts_year (date r) \<rparr>"

definition prepare_data :: "timestamp input_row list \<Rightarrow> prepared_row list" where
  "prepare_data rows = map prepare_row rows"

definition prepare_data_object :: "string input_row list \<Rightarrow> error + prepared_row list" where
  "prepare_data_object rows =
     (case to_datetime (map date rows) of
        Inl e \<Rightarrow> Inl e
      | Inr ts \<Rightarrow>
          Inr (prepare_data
                 (map (\<lambda>(r, t). \<lparr> date = t, enrolments = enrolments r \<rparr>) (zip rows ts))))"

text \<open>The constructor \<open>__init__\<close>: copy, sort, prepare; \<open>init\<close> on a table whose \<open>date\<close>
  column holds timestamps, \<open>init_object\<close> on one whose \<open>date\<close> column holds strings. The sort
  comes first in both, so the strings are sorted as strings, before they are parsed.\<close>

definition init :: "timestamp input_row list \<Rightarrow> prepared_row list" where
  "init data = prepare_data (sort_values data)"

definition init_object :: "string input_row list \<Rightarrow> error + prepared_row list" where
  "init_object data = prepare_data_object (sort_values_object data)"

subsection \<open>Monthly totals\<close>

text \<open>
  \<open>groupby(pd.Grouper(key='date', freq='ME'))['enrolments'].sum()\<close>: a grouper with a
  frequency bins the span of the dates, one bin per calendar month from the month of the
  earliest date to the month of the latest, each labelled by the last day of its month;
  the sum of a bin without rows is 0. An empty table has no bins. The sum of a bin is an
  \<open>int64\<close> sum.
\<close>

definition month_index :: "timestamp \<Rightarrow> int" where
  "month_index t = ts_year t * 12 + (int (ts_month t) - 1)"

definition month_end :: "int \<Rightarrow> timestamp" where
  "month_end i =
     Timestamp (i div 12) (nat (i mod 12) + 1) (days_in_month (i div 12) (nat (i mod 12) + 1))"

definition month_sum :: "prepared_row list \<Rightarrow> int \<Rightarrow> int" where
  "month_sum data i =
     int64 (sum_list (map enrolments (filter (\<lambda>r. month_index (date r) = i) data)))"

definition monthly_totals :: "prepared_row list \<Rightarrow> (timestamp \<times> int) list" where
  "monthly_totals data =
     (if data = [] then []
      else map (\<lambda>i. (month_end i, month_sum data i))
             [Min (set (map (\<lambda>r. month_index (date r)) data)) ..
              Max (set (map (\<lambda>r. month_index (date r)) data))])"

subsection \<open>Seasonal decomposition\<close>

text \<open>
  \<open>seasonal_decompose\<close> is a function of the statsmodels library. It is a parameter
  of the model, called with the arguments the source gives it, and
  \<open>detect_seasonal_pattern\<close> returns, beside its result, the list of the calls it made to
  it. A call of the library may raise; then the exception is the result.
\<close>

record decomposition =
  dec_trend :: "(timestamp \<times> float64) list"
  dec_seasonal :: "(timestamp \<times> float64) list"
  dec_resid :: "(timestamp \<times> float64) list"
  dec_observed :: "(timestamp \<times> float64) list"

datatype pattern =
  Insufficient (error: string) (required_periods: int) (available_periods: nat)
| Components (trend: "(timestamp \<times> float64) list") (seasonal: "(timestamp \<times> float64) list")
    (residual: "(timestamp \<times> float64) list") (observed: "(timestamp \<times> float64) list")

record decompose_call =
  dc_series :: "(timestamp \<times> int) list"
  dc_model :: string
  dc_period :: int
  dc_extrapolate_trend :: string

definition detect_seasonal_pattern ::
  "(decompose_call \<Rightarrow> error + decomposition) \<Rightarrow> prepared_row list \<Rightarrow> int
     \<Rightarrow> (error + pattern) \<times> decompose_call list" where
  "detect_seasonal_pattern seasonal_decompose data period =
     (let monthly_data = monthly_totals data in
      if int (length monthly_data) < 2 * period
      then (Inr (Insufficient ''Insufficient data for seasonal decomposition''
                   (2 * period) (length monthly_data)), [])
      else
        (let call = \<lparr> dc_series = monthly_data, dc_model = ''additive'', dc_period = period,
                        dc_extrapolate_trend = ''freq'' \<rparr>
         in case seasonal_decompose call of
              Inl e \<Rightarrow> (Inl e, [call])
            | Inr d \<Rightarrow>
                (Inr (Components (dec_trend d) (dec_seasonal d) (dec_resid d) (dec_observed d)),
                 [call])))"

subsection \<open>The additive decomposition of the library\<close>

text \<open>
  Modelled from the spec: the decomposition algorithm itself, \<open>seasonal_decompose\<close> of
  statsmodels, which is not part of the repository. Section 4.3 of the spec describes it
  as the classical additive decomposition: a trend from a centred moving average over one
  period, extrapolated over the ends of the series, where the moving average is
  undefined, so that it covers the whole span; a seasonal component from the averages of
  the detrended series over the positions of the period; and
  \<open>residual = observed - trend - seasonal\<close>. The steps follow the library's documented
  algorithm for \<open>model='additive'\<close> and \<open>extrapolate_trend='freq'\<close>:
  \<^item> the weights of the moving average are \<open>1 / period\<close>, with the two end weights halved
    when the period is even; the average is \<open>NaN\<close> on the first and the last
    \<open>period div 2\<close> positions;
  \<^item> the trend is extended before its first and after its last defined value along the
    least-squares line through its first and its last \<open>period\<close> defined values (where one
    point is all there is, the solution of least norm);
  \<^item> the averages over the positions of the period skip \<open>NaN\<close> and are centred on their
    mean.
  The library refuses a series shorter than two periods. A period below 1 and a model
  other than the additive one are outside this model and refused as well.
\<close>

definition isnan :: "float64 \<Rightarrow> bool" where
  "isnan v = (v = NaN)"

fun is_num :: "float64 \<Rightarrow> bool" where
  "is_num (Num a) = True"
| "is_num _ = False"

fun nums :: "float64 list \<Rightarrow> real list" where
  "nums [] = []"
| "nums (Num a # vs) = a # nums vs"
| "nums (_ # vs) = nums vs"

definition nanmean :: "float64 list \<Rightarrow> float64" where
  "nanmean vs = mean (nums vs)"

definition np_mean :: "float64 list \<Rightarrow> float64" where
  "np_mean vs = (if list_all is_num vs then mean (nums vs) else NaN)"

definition filt :: "nat \<Rightarrow> real list" where
  "filt p =
     (if even p
      then [1 / (2 * real p)] @ replicate (p - 1) (1 / real p) @ [1 / (2 * real p)]
      else replicate p (1 / real p))"

definition convolution_filter :: "real list \<Rightarrow> nat \<Rightarrow> float64 list" where
  "convolution_filter x p =
     map (\<lambda>i. if p div 2 \<le> i \<and> i + p div 2 < length x
              then Num (\<Sum>j\<leftarrow>[0..<length (filt p)]. filt p ! j * x ! (i - p div 2 + j))
              else NaN)
       [0..<length x]"

definition lstsq_line :: "(real \<times> real) list \<Rightarrow> real \<times> real" where
  "lstsq_line pts =
     (case pts of
        [] \<Rightarrow> (0, 0)
      | [(x, y)] \<Rightarrow> (x * y / (x\<^sup>2 + 1), y / (x\<^sup>2 + 1))
      | _ \<Rightarrow>
          (let n = real (length pts);
               sx = (\<Sum>(x, y)\<leftarrow>pts. x); sy = (\<Sum>(x, y)\<leftarrow>pts. y);
               sxx = (\<Sum>(x, y)\<leftarrow>pts. x * x); sxy = (\<Sum>(x, y)\<leftarrow>pts. x * y);
               k = (n * sxy - sx * sy) / (n * sxx - sx * sx)
           in (k, (sy - k * sx) / n)))"

definition line_value :: "(real \<times> float64) list \<Rightarrow> real \<Rightarrow> float64" where
  "line_value pts i =
     (if list_all is_num (map snd pts)
      then (case lstsq_line (zip (map fst pts) (nums (map snd pts))) of (k, n) \<Rightarrow> Num (i * k + n))
      else NaN)"

definition extrapolate_trend :: "float64 list \<Rightarrow> nat \<Rightarrow> float64 list" where
  "extrapolate_trend tr npoints =
     (let n = length tr;
          front = length (takeWhile isnan tr);
          back = n - 1 - length (takeWhile isnan (rev tr));
          front_last = min (front + npoints) back;
          back_first = max front (back - npoints);
          head = map (\<lambda>i. (real i, tr ! i)) [front..<front_last];
          tail = map (\<lambda>i. (real i, tr ! i)) [back_first..<back]
      in map (\<lambda>i. if i < front then line_value head (real i)
                  else if back < i then line_value tail (real i)
                  else tr ! i)
           [0..<n])"

definition seasonal_mean :: "float64 list \<Rightarrow> nat \<Rightarrow> float64 list" where
  "seasonal_mean x p =
     map (\<lambda>i. nanmean (map (\<lambda>j. x ! j) (filter (\<lambda>j. j mod p = i) [0..<length x]))) [0..<p]"

definition seasonal_decompose_additive :: "decompose_call \<Rightarrow> error + decomposition" where
  "seasonal_decompose_additive c =
     (let x = map (\<lambda>(d, e). real_of_int e) (dc_series c);
          keys = map fst (dc_series c);
          n = length x;
          p = nat (dc_period c)
      in if dc_period c < 1 then Inl ValueError
         else if dc_model c = ''additive'' then
           (if int n < 2 * dc_period c then Inl ValueError
            else
              (let ma = convolution_filter x p;
                   tr = (if dc_extrapolate_trend c = ''freq'' \<and> 1 < p
                         then extrapolate_trend ma p else ma);
                   detrended = map (\<lambda>j. fl_sub (Num (x ! j)) (tr ! j)) [0..<n];
                   period_averages = seasonal_mean detrended p;
                   centred = map (\<lambda>a. fl_sub a (np_mean period_averages)) period_averages;
                   se = map (\<lambda>j. centred ! (j mod p)) [0..<n];
                   re = map (\<lambda>j. fl_sub (detrended ! j) (se ! j)) [0..<n]
               in Inr \<lparr> dec_trend = zip keys tr, dec_seasonal = zip keys se,
                        dec_resid = zip keys re, dec_observed = zip keys (map Num x) \<rparr>))
         else Inl ValueError)"

subsection \<open>Peak months and quarters, seasonality strength\<close>

text \<open>
  \<open>groupby(column)['enrolments'].mean()\<close>: one group per value of the column that
  occurs in the table, in ascending order of the value, with the mean of the group's
  enrolments (a group has at least one row, so the mean is a number).
\<close>

definition groupby_mean :: "(prepared_row \<Rightarrow> nat) \<Rightarrow> prepared_row list \<Rightarrow> (nat \<times> real) list" where
  "groupby_mean col data =
     map (\<lambda>k. (k, real_of_int (sum_list (map enrolments (filter (\<lambda>r. col r = k) data)))
                  / real (length (filter (\<lambda>r. col r = k) data))))
       (sort (remdups (map col data)))"

text \<open>
  \<open>sort_values(ascending=False).to_dict()\<close>: the groups in descending order of the
  mean, as a dictionary in that order. Among equal means the order is the library's;
  here it is the order of the keys.
\<close>

definition sort_values_desc :: "(nat \<times> real) list \<Rightarrow> (nat \<times> real) list" where
  "sort_values_desc kvs = sort_key (\<lambda>kv. - snd kv) kvs"

definition identify_peak_months :: "prepared_row list \<Rightarrow> (nat \<times> real) list" where
  "identify_peak_months data = sort_values_desc (groupby_mean month data)"

definition identify_peak_quarters :: "prepared_row list \<Rightarrow> (nat \<times> real) list" where
  "identify_peak_quarters data = sort_values_desc (groupby_mean quarter data)"

definition calculate_seasonality_strength :: "prepared_row list \<Rightarrow> float64" where
  "calculate_seasonality_strength data =
     (let monthly_avg = map snd (groupby_mean month data);
          cv = fl_div (std monthly_avg) (mean monthly_avg)
      in py_min cv (Num 1))"

subsection \<open>Anomalous periods\<close>

text \<open>\<open>strftime('%Y-%m')\<close>: the year in decimal, as many digits as it has (the C library
  does not pad it), a dash, and the month in two digits. The years of valid dates are
  from 1 to 9999.\<close>

definition digit :: "nat \<Rightarrow> char" where
  "digit n = ''0123456789'' ! (n mod 10)"

fun decimal :: "nat \<Rightarrow> string" where
  "decimal n = (if n < 10 then [digit n] else decimal (n div 10) @ [digit n])"

declare decimal.simps [simp del]

definition strftime_Ym :: "timestamp \<Rightarrow> string" where
  "strftime_Ym t =
     decimal (nat (ts_year t)) @ [CHR ''-'', digit (ts_month t div 10), digit (ts_month t)]"

datatype anomaly =
  Anomaly (anomaly_date: string) (anomaly_enrolments: int) (anomaly_z_score: float64)
    (anomaly_type: string)

definition z_scores :: "(timestamp \<times> int) list \<Rightarrow> (timestamp \<times> int \<times> float64) list" where
  "z_scores monthly =
     (let mean_enrolments = mean (map (\<lambda>(d, e). real_of_int e) monthly);
          std_enrolments = std (map (\<lambda>(d, e). real_of_int e) monthly)
      in map (\<lambda>(d, e). (d, e, fl_div (fl_sub (Num (real_of_int e)) mean_enrolments)
                                  std_enrolments)) monthly)"

definition detect_anomalous_periods :: "prepared_row list \<Rightarrow> float64 \<Rightarrow> anomaly list" where
  "detect_anomalous_periods data threshold =
     (let monthly = z_scores (monthly_totals data);
          anomalies = filter (\<lambda>(d, e, z). fl_less threshold (fl_abs z)) monthly
      in map (\<lambda>(d, e, z). Anomaly (strftime_Ym d) e z
                             (if fl_less (Num 0) z then ''spike'' else ''drop''))
           anomalies)"

subsection \<open>The summary\<close>

record summary =
  peak_months :: "(nat \<times> real) list"
  peak_quarters :: "(nat \<times> real) list"
  seasonality_strength :: float64
  anomalous_periods :: "anomaly list"
  total_enrolments :: int
  average_monthly_enrolments :: float64

definition get_seasonal_summary :: "prepared_row list \<Rightarrow> summary" where
  "get_seasonal_summary data =
     \<lparr> peak_months = identify_peak_months data,
       peak_quarters = identify_peak_quarters data,
       seasonality_strength = calculate_seasonality_strength data,
       anomalous_periods = detect_anomalous_periods data (Num 2),
       total_enrolments = int64 (sum_list (map enrolments data)),
       average_monthly_enrolments =
         mean (map (\<lambda>(d, e). real_of_int e) (monthly_totals data)) \<rparr>"

text \<open>A row of the input table, for the concrete tables below.\<close>

definition row :: "int \<Rightarrow> nat \<Rightarrow> nat \<Rightarrow> int \<Rightarrow> timestamp input_row" where
  "row y m d e = \<lparr> date = Timestamp y m d, enrolments = e \<rparr>"

section \<open>Auxiliary facts\<close>

lemmas table_defs =
  init_def sort_values_def prepare_data_def prepare_row_def row_def ts_key_def

lemmas monthly_defs =
  monthly_totals_def month_index_def month_end_def month_sum_def days_in_month_def
  is_leap_year_def int64_def

lemma month_index_month_end: "month_index (month_end i) = i"
  by (simp add: month_index_def month_end_def)







lemma int64_0 [simp]: "int64 0 = 0"
  by (simp add: int64_def)

lemma monthly_totals_bucket:
  assumes "b \<in> set (monthly_totals data)"
  shows "fst b = month_end (month_index (fst b)) \<and>
         snd b = int64 (sum_list (map enrolments
                   (filter (\<lambda>r. month_index (date r) = month_index (fst b)) data)))"
proof -
  from assms obtain i where "b = (month_end i, month_sum data i)"
    by (auto simp: monthly_totals_def split: if_splits)
  then show ?thesis
    by (simp add: month_index_month_end month_sum_def)
qed

lemma monthly_totals_index:
  assumes "data \<noteq> []"
  shows "map (\<lambda>b. month_index (fst b)) (monthly_totals data) =
           [Min (set (map (\<lambda>r. month_index (date r)) data)) ..
            Max (set (map (\<lambda>r. month_index (date r)) data))]"
  using assms by (simp add: monthly_totals_def comp_def month_index_month_end)


lemma monthly_totals_length:
  assumes "data \<noteq> []"
  shows "1 \<le> length (monthly_totals data)"
proof -
  let ?S = "set (map (\<lambda>r. month_index (date r)) data)"
  have "finite ?S" "?S \<noteq> {}" using assms by simp_all
  then have "Min ?S \<le> Max ?S" by (meson Min_le Max_in)
  then have "1 \<le> length [Min ?S .. Max ?S]" by (simp only: length_upto)
  moreover have "length (monthly_totals data) = length [Min ?S .. Max ?S]"
    using assms by (simp only: monthly_totals_def if_False length_map)
  ultimately show ?thesis by simp
qed

lemma fl_div_NaN_right [simp]: "fl_div x NaN = NaN"
  by (cases x) simp_all

lemma fl_less_NaN_right [simp]: "fl_less t NaN = False"
  by (cases t) simp_all

lemma sum_list_squares_zero:
  fixes f :: "'a \<Rightarrow> real"
  assumes "sum_list (map (\<lambda>x. (f x)\<^sup>2) xs) = 0"
  shows "\<forall>x \<in> set xs. f x = 0"
  using assms
proof (induction xs)
  case Nil
  then show ?case by simp
next
  case (Cons a xs)
  have "0 \<le> sum_list (map (\<lambda>x. (f x)\<^sup>2) xs)"
    by (rule sum_list_nonneg) auto
  moreover have "0 \<le> (f a)\<^sup>2" by simp
  ultimately have "(f a)\<^sup>2 = 0 \<and> sum_list (map (\<lambda>x. (f x)\<^sup>2) xs) = 0"
    using Cons.prems by (simp add: add_nonneg_eq_0_iff)
  then show ?case using Cons.IH by simp
qed

lemma std_zero_all_equal:
  assumes "std xs = Num 0"
  shows "\<forall>x \<in> set xs. x = sum_list xs / real (length xs)"
proof -
  from assms have n: "2 \<le> length xs"
    by (auto simp: std_def split: if_splits)
  then have "real (length xs - 1) \<noteq> 0" by simp
  with assms n have "sum_list (map (\<lambda>x. (x - sum_list xs / real (length xs))\<^sup>2) xs) = 0"
    by (simp add: std_def)
  from sum_list_squares_zero [OF this] show ?thesis by simp
qed

lemma z_scores_NaN:
  assumes "length monthly < 2 \<or> std (map (\<lambda>(d, e). real_of_int e) monthly) = Num 0"
  shows "\<forall>b \<in> set (z_scores monthly). snd (snd b) = NaN"
proof (cases "length monthly < 2")
  case True
  then have "std (map (\<lambda>(d, e). real_of_int e) monthly) = NaN"
    by (simp add: std_def)
  then show ?thesis
    by (auto simp: z_scores_def)
next
  case False
  let ?xs = "map (\<lambda>(d, e). real_of_int e) monthly"
  from False assms have s: "std ?xs = Num 0" by simp
  from False have m: "mean ?xs = Num (sum_list ?xs / real (length ?xs))"
    by (auto simp: mean_def)
  have "real_of_int e = sum_list ?xs / real (length ?xs)" if "(d, e) \<in> set monthly" for d e
    using std_zero_all_equal [OF s] that by force
  then show ?thesis
    unfolding z_scores_def Let_def s m by auto
qed

lemma no_anomalies_if_NaN:
  assumes "\<forall>b \<in> set (z_scores (monthly_totals data)). snd (snd b) = NaN"
  shows "detect_anomalous_periods data threshold = []"
  using assms by (auto simp: detect_anomalous_periods_def filter_empty_conv)



lemma set_init: "set (init rows) = prepare_row ` set rows"
  by (simp add: init_def prepare_data_def sort_values_def)

lemma month_prepare_row [simp]: "month (prepare_row r) = ts_month (date r)"
  by (simp add: prepare_row_def)

lemma quarter_prepare_row [simp]: "quarter (prepare_row r) = (ts_month (date r) - 1) div 3 + 1"
  by (simp add: prepare_row_def)

lemma enrolments_prepare_row [simp]: "enrolments (prepare_row r) = enrolments r"
  by (simp add: prepare_row_def)

lemma groupby_mean_keys: "map fst (groupby_mean col data) = sort (remdups (map col data))"
  by (simp add: groupby_mean_def comp_def)

lemma sort_values_desc_keys:
  assumes "distinct (map fst kvs)"
  shows "distinct (map fst (sort_values_desc kvs)) \<and>
         set (map fst (sort_values_desc kvs)) = set (map fst kvs) \<and>
         length (sort_values_desc kvs) = length kvs"
  using assms by (simp add: sort_values_desc_def distinct_map)

lemma sort_values_desc_sorted:
  "sorted_wrt (\<lambda>a b. snd b \<le> snd a) (sort_values_desc kvs)"
proof -
  have "sorted (map (\<lambda>kv. - snd kv) (sort_values_desc kvs))"
    by (simp add: sort_values_desc_def)
  then show ?thesis
    by (simp add: sorted_map sorted_wrt_iff_nth_less)
qed

lemma set_sort_values_desc: "set (sort_values_desc kvs) = set kvs"
  by (simp add: sort_values_desc_def)

lemma groupby_ranking:
  "distinct (map fst (sort_values_desc (groupby_mean col data))) \<and>
   set (map fst (sort_values_desc (groupby_mean col data))) = col ` set data \<and>
   length (sort_values_desc (groupby_mean col data)) = card (col ` set data) \<and>
   sorted_wrt (\<lambda>a b. snd b \<le> snd a) (sort_values_desc (groupby_mean col data)) \<and>
   (\<forall>kv \<in> set (sort_values_desc (groupby_mean col data)).
      snd kv = real_of_int (sum_list (map enrolments (filter (\<lambda>r. col r = fst kv) data)))
                 / real (length (filter (\<lambda>r. col r = fst kv) data)))"
proof -
  have d: "distinct (map fst (groupby_mean col data))"
    by (simp add: groupby_mean_keys)
  have l: "length (groupby_mean col data) = card (col ` set data)"
    using arg_cong [OF groupby_mean_keys [of col data], of length]
    by (simp add: length_remdups_card_conv)
  have s: "set (map fst (groupby_mean col data)) = col ` set data"
    by (simp add: groupby_mean_keys)
  have v: "\<forall>kv \<in> set (groupby_mean col data).
      snd kv = real_of_int (sum_list (map enrolments (filter (\<lambda>r. col r = fst kv) data)))
                 / real (length (filter (\<lambda>r. col r = fst kv) data))"
    by (auto simp: groupby_mean_def)
  show ?thesis
    using sort_values_desc_keys [OF d] sort_values_desc_sorted [of "groupby_mean col data"] l s v
    by (simp add: set_sort_values_desc)
qed

lemma valid_month_range:
  assumes "valid_date t"
  shows "ts_month t \<in> {1..12} \<and> (ts_month t - 1) div 3 + 1 \<in> {1..4}"
  using assms by (auto simp: valid_date_def)

lemma groupby_mean_nonneg:
  assumes "\<forall>r \<in> set data. 0 \<le> enrolments r"
  shows "\<forall>x \<in> set (map snd (groupby_mean col data)). 0 \<le> x"
proof -
  have "0 \<le> sum_list (map enrolments (filter P data))" for P
    using assms by (intro sum_list_nonneg) auto
  then show ?thesis
    by (auto simp: groupby_mean_def)
qed

text \<open>The prepared table is in ascending order of the dates, and has the rows of the
  input.\<close>

lemma init_sorted: "sorted (map (\<lambda>r. ts_key (date r)) (init rows))"
proof -
  have "map (\<lambda>r. ts_key (date r)) (init rows) =
        map (\<lambda>r. ts_key (date r)) (sort_key (\<lambda>r. ts_key (date r)) rows)"
    by (simp add: init_def prepare_data_def sort_values_def comp_def prepare_row_def)
  then show ?thesis by simp
qed

lemma init_length: "length (init rows) = length rows"
  by (simp add: init_def prepare_data_def sort_values_def)

text \<open>Where the table has at least two distinct months, no negative count and a
  mean of the monthly means that is not zero, the seasonality strength is the coefficient
  of variation, cut off at 1.\<close>

lemma seasonality_strength_range:
  assumes nn: "\<forall>r \<in> set data. 0 \<le> enrolments r"
    and two: "2 \<le> card (month ` set data)"
    and nz: "mean (map snd (groupby_mean month data)) \<noteq> Num 0"
  shows "\<exists>s m. std (map snd (groupby_mean month data)) = Num s \<and>
               mean (map snd (groupby_mean month data)) = Num m \<and> 0 \<le> s \<and> 0 < m \<and>
               calculate_seasonality_strength data = Num (min (s / m) 1)"
proof -
  let ?ms = "map snd (groupby_mean month data)"
  have len: "length ?ms = card (month ` set data)"
    using arg_cong [OF groupby_mean_keys [of month data], of length]
    by (simp add: length_remdups_card_conv)
  with two have l2: "2 \<le> length ?ms" by simp
  define s where "s = sqrt (sum_list (map (\<lambda>x. (x - sum_list ?ms / real (length ?ms))\<^sup>2) ?ms)
                       / real (length ?ms - 1))"
  have "0 \<le> sum_list (map (\<lambda>x. (x - sum_list ?ms / real (length ?ms))\<^sup>2) ?ms)"
    by (rule sum_list_nonneg) auto
  then have "0 \<le> s"
    unfolding s_def by (intro real_sqrt_ge_zero divide_nonneg_nonneg) simp_all
  moreover have "std ?ms = Num s"
    using l2 unfolding s_def std_def by simp
  ultimately have s: "std ?ms = Num s" "0 \<le> s" by simp_all
  from l2 have ne: "?ms \<noteq> []" by auto
  then obtain m where m: "mean ?ms = Num m" "m = sum_list ?ms / real (length ?ms)"
    by (simp add: mean_def)
  have "0 \<le> sum_list ?ms"
    using groupby_mean_nonneg [OF nn] by (intro sum_list_nonneg) auto
  then have "0 \<le> m" using m(2) by simp
  moreover have "m \<noteq> 0" using nz m(1) by auto
  ultimately have mp: "0 < m" by simp
  have "calculate_seasonality_strength data = Num (min (s / m) 1)"
    using mp by (simp add: calculate_seasonality_strength_def Let_def s m(1) py_min_def min_def)
  with s m(1) mp show ?thesis by blast
qed

lemma nums_all_num:
  assumes "\<forall>v \<in> set vs. is_num v"
  shows "length (nums vs) = length vs"
  using assms
proof (induction vs)
  case Nil
  then show ?case by simp
next
  case (Cons v vs)
  then show ?case by (cases v) simp_all
qed

lemma is_num_iff: "is_num v \<longleftrightarrow> (\<exists>a. v = Num a)"
  by (cases v) simp_all

lemma mean_is_num: "xs \<noteq> [] \<Longrightarrow> is_num (mean xs)"
  by (simp add: mean_def)

lemma nanmean_is_num:
  assumes "\<forall>v \<in> set vs. is_num v" and "vs \<noteq> []"
  shows "is_num (nanmean vs)"
proof -
  have "length (nums vs) = length vs" using assms(1) by (rule nums_all_num)
  with assms(2) have "nums vs \<noteq> []" by auto
  then show ?thesis by (simp add: nanmean_def mean_is_num)
qed

lemma np_mean_is_num:
  assumes "\<forall>v \<in> set vs. is_num v" and "vs \<noteq> []"
  shows "is_num (np_mean vs)"
proof -
  have "length (nums vs) = length vs" using assms(1) by (rule nums_all_num)
  with assms(2) have "nums vs \<noteq> []" by auto
  then show ?thesis using assms(1) by (simp add: np_mean_def mean_is_num list_all_iff)
qed

lemma line_value_is_num:
  assumes "\<forall>p \<in> set pts. is_num (snd p)"
  shows "is_num (line_value pts i)"
  using assms by (simp add: line_value_def list_all_iff split: prod.splits)

lemma length_takeWhile_eq:
  assumes "h \<le> length xs" and "\<forall>i<h. P (xs ! i)" and "h < length xs \<longrightarrow> \<not> P (xs ! h)"
  shows "length (takeWhile P xs) = h"
proof -
  have a: "h \<le> length (takeWhile P xs)"
    using assms(1,2) by (simp add: length_takeWhile_less_P_nth)
  have "\<not> h < length (takeWhile P xs)"
  proof
    assume l: "h < length (takeWhile P xs)"
    then have "takeWhile P xs ! h \<in> set (takeWhile P xs)" by simp
    then have "P (takeWhile P xs ! h)" by (rule set_takeWhileD [THEN conjunct2])
    moreover have "takeWhile P xs ! h = xs ! h" using l by (rule takeWhile_nth)
    moreover have "h < length xs" using l length_takeWhile_le [of P xs] by simp
    ultimately show False using assms(3) by simp
  qed
  with a show ?thesis by simp
qed

lemma convolution_filter_nth:
  assumes "i < length x"
  shows "convolution_filter x p ! i =
     (if p div 2 \<le> i \<and> i + p div 2 < length x
      then Num (\<Sum>j\<leftarrow>[0..<length (filt p)]. filt p ! j * x ! (i - p div 2 + j))
      else NaN)"
  using assms by (simp add: convolution_filter_def)

lemma length_convolution_filter [simp]: "length (convolution_filter x p) = length x"
  by (simp add: convolution_filter_def)

lemma convolution_filter_front:
  assumes "2 * (p div 2) < length x"
  shows "length (takeWhile isnan (convolution_filter x p)) = p div 2"
proof (rule length_takeWhile_eq)
  show "p div 2 \<le> length (convolution_filter x p)" using assms by simp
  show "\<forall>i<p div 2. isnan (convolution_filter x p ! i)"
    using assms by (simp add: convolution_filter_nth isnan_def)
  show "p div 2 < length (convolution_filter x p) \<longrightarrow> \<not> isnan (convolution_filter x p ! (p div 2))"
    using assms by (simp add: convolution_filter_nth isnan_def)
qed

lemma convolution_filter_back:
  assumes "2 * (p div 2) < length x"
  shows "length (takeWhile isnan (rev (convolution_filter x p))) = p div 2"
proof (rule length_takeWhile_eq)
  show "p div 2 \<le> length (rev (convolution_filter x p))" using assms by simp
  show "\<forall>i<p div 2. isnan (rev (convolution_filter x p) ! i)"
    using assms by (auto simp: rev_nth convolution_filter_nth isnan_def)
  show "p div 2 < length (rev (convolution_filter x p)) \<longrightarrow>
        \<not> isnan (rev (convolution_filter x p) ! (p div 2))"
    using assms by (auto simp: rev_nth convolution_filter_nth isnan_def)
qed

lemma extrapolate_trend_is_num:
  assumes "2 * (p div 2) < length x" and "i < length x"
  shows "is_num (extrapolate_trend (convolution_filter x p) npoints ! i)"
proof -
  let ?ma = "convolution_filter x p"
  let ?h = "p div 2"
  let ?bk = "length x - 1 - ?h"
  have mid: "is_num (?ma ! j)" if "?h \<le> j" "j \<le> ?bk" for j
    using that assms(1) by (simp add: convolution_filter_nth)
  have head: "\<forall>q \<in> set (map (\<lambda>i. (real i, ?ma ! i)) [?h..<min (?h + npoints) ?bk]). is_num (snd q)"
    using mid by auto
  have tail: "\<forall>q \<in> set (map (\<lambda>i. (real i, ?ma ! i)) [max ?h (?bk - npoints)..<?bk]). is_num (snd q)"
    using mid by auto
  show ?thesis
    using assms(2) mid [of i] line_value_is_num [OF head] line_value_is_num [OF tail]
    by (simp add: extrapolate_trend_def Let_def convolution_filter_front [OF assms(1)]
        convolution_filter_back [OF assms(1)])
qed

lemma length_extrapolate_trend [simp]: "length (extrapolate_trend tr np) = length tr"
  by (simp add: extrapolate_trend_def Let_def)

lemma seasonal_decompose_additive_result:
  assumes p1: "1 \<le> dc_period c" and md: "dc_model c = ''additive''"
    and ex: "dc_extrapolate_trend c = ''freq''"
    and len: "2 * dc_period c \<le> int (length (dc_series c))"
  shows "\<exists>d. seasonal_decompose_additive c = Inr d \<and>
           map fst (dec_trend d) = map fst (dc_series c) \<and>
           map fst (dec_seasonal d) = map fst (dc_series c) \<and>
           map fst (dec_resid d) = map fst (dc_series c) \<and>
           map fst (dec_observed d) = map fst (dc_series c) \<and>
           (\<forall>i<length (dc_series c).
              \<exists>t s. snd (dec_observed d ! i) = Num (real_of_int (snd (dc_series c ! i))) \<and>
                    snd (dec_trend d ! i) = Num t \<and>
                    snd (dec_seasonal d ! i) = Num s \<and>
                    snd (dec_resid d ! i) = Num (real_of_int (snd (dc_series c ! i)) - t - s))"
proof -
  define x where "x = map (\<lambda>(d, e). real_of_int e) (dc_series c)"
  define keys where "keys = map fst (dc_series c)"
  define n where "n = length x"
  define p where "p = nat (dc_period c)"
  define ma where "ma = convolution_filter x p"
  define tr where "tr = (if dc_extrapolate_trend c = ''freq'' \<and> 1 < p
                         then extrapolate_trend ma p else ma)"
  define detrended where "detrended = map (\<lambda>j. fl_sub (Num (x ! j)) (tr ! j)) [0..<n]"
  define period_averages where "period_averages = seasonal_mean detrended p"
  define centred where
    "centred = map (\<lambda>a. fl_sub a (np_mean period_averages)) period_averages"
  define se where "se = map (\<lambda>j. centred ! (j mod p)) [0..<n]"
  define re where "re = map (\<lambda>j. fl_sub (detrended ! j) (se ! j)) [0..<n]"
  define d where "d = \<lparr> dec_trend = zip keys tr, dec_seasonal = zip keys se,
                        dec_resid = zip keys re, dec_observed = zip keys (map Num x) \<rparr>"
  have n_len: "n = length (dc_series c)" by (simp add: n_def x_def)
  have p_pos: "1 \<le> p" and p_n: "2 * p \<le> n"
    using p1 len by (simp_all add: p_def n_len)
  have half: "2 * (p div 2) < length x"
    using p_pos p_n by (simp add: n_def)
  have res: "seasonal_decompose_additive c = Inr d"
    using p1 md len
    unfolding seasonal_decompose_additive_def Let_def d_def re_def se_def centred_def
      period_averages_def detrended_def tr_def ma_def p_def n_def keys_def x_def
    by simp
  have tr_len: "length tr = n"
    by (simp add: tr_def ma_def n_def)
  have tr_num: "is_num (tr ! i)" if "i < n" for i
  proof (cases "1 < p")
    case True
    then show ?thesis
      using extrapolate_trend_is_num [OF half, where i = i and npoints = p] that ex
      by (simp add: tr_def ma_def n_def)
  next
    case False
    with p_pos have "p = 1" by simp
    then show ?thesis
      using that by (simp add: tr_def ma_def n_def convolution_filter_nth)
  qed
  have de_nth: "detrended ! i = fl_sub (Num (x ! i)) (tr ! i)" if "i < n" for i
    using that by (simp add: detrended_def)
  have de_num: "is_num (detrended ! i)" if "i < n" for i
    using tr_num [OF that] de_nth [OF that] by (auto simp: is_num_iff)
  have pa_num: "is_num (period_averages ! i)" if "i < p" for i
  proof -
    let ?js = "filter (\<lambda>j. j mod p = i) [0..<length detrended]"
    have "i \<in> set ?js" using that p_n by (simp add: detrended_def)
    then have "?js \<noteq> []" by (metis empty_iff empty_set)
    then have ne: "map (\<lambda>j. detrended ! j) ?js \<noteq> []" by simp
    have "\<forall>v \<in> set (map (\<lambda>j. detrended ! j) ?js). is_num v"
      using de_num by (auto simp: detrended_def)
    from nanmean_is_num [OF this ne] show ?thesis
      using that by (simp add: period_averages_def seasonal_mean_def)
  qed
  have pa_len: "length period_averages = p"
    by (simp add: period_averages_def seasonal_mean_def)
  have "\<forall>v \<in> set period_averages. is_num v"
    using pa_num pa_len by (metis in_set_conv_nth)
  moreover have "period_averages \<noteq> []" using pa_len p_pos by auto
  ultimately have m_num: "is_num (np_mean period_averages)"
    by (rule np_mean_is_num)
  have ce_num: "is_num (centred ! i)" if "i < p" for i
    using pa_num [OF that] m_num that pa_len by (auto simp: centred_def is_num_iff)
  have se_nth: "se ! i = centred ! (i mod p)" if "i < n" for i
    using that by (simp add: se_def)
  have se_num: "is_num (se ! i)" if "i < n" for i
    using ce_num [of "i mod p"] p_pos se_nth [OF that] by simp
  have re_nth: "re ! i = fl_sub (detrended ! i) (se ! i)" if "i < n" for i
    using that by (simp add: re_def)
  have keys_len: "length keys = n" by (simp add: keys_def n_len)
  have x_nth: "x ! i = real_of_int (snd (dc_series c ! i))" if "i < n" for i
    using that by (simp add: x_def n_len case_prod_unfold)
  have point: "\<exists>t s. snd (dec_observed d ! i) = Num (real_of_int (snd (dc_series c ! i))) \<and>
                    snd (dec_trend d ! i) = Num t \<and>
                    snd (dec_seasonal d ! i) = Num s \<and>
                    snd (dec_resid d ! i) = Num (real_of_int (snd (dc_series c ! i)) - t - s)"
    if i: "i < n" for i
  proof -
    from tr_num [OF i] obtain t where t: "tr ! i = Num t" by (auto simp: is_num_iff)
    from se_num [OF i] obtain s' where s': "se ! i = Num s'" by (auto simp: is_num_iff)
    have "re ! i = Num (x ! i - t - s')"
      by (simp add: re_nth [OF i] de_nth [OF i] t s')
    then show ?thesis
      using i t s' keys_len tr_len x_nth [OF i]
      by (simp add: d_def se_def re_def n_def)
  qed
  have "map fst (dec_trend d) = map fst (dc_series c)"
    using keys_len tr_len by (simp add: d_def keys_def)
  moreover have "map fst (dec_seasonal d) = map fst (dc_series c)"
    using keys_len by (simp add: d_def keys_def se_def)
  moreover have "map fst (dec_resid d) = map fst (dc_series c)"
    using keys_len by (simp add: d_def keys_def re_def)
  moreover have "map fst (dec_observed d) = map fst (dc_series c)"
    using keys_len by (simp add: d_def keys_def n_def)
  ultimately show ?thesis
    using res point n_len by blast
qed

lemma seasonal_decompose_additive_Inr:
  assumes "seasonal_decompose_additive c = Inr d"
  shows "1 \<le> dc_period c \<and> dc_model c = ''additive'' \<and>
         2 * dc_period c \<le> int (length (dc_series c))"
  using assms by (simp add: seasonal_decompose_additive_def Let_def split: if_splits)

text \<open>With enough monthly buckets the library is called once, on the monthly totals,
  with \<open>model='additive'\<close>, the period and \<open>extrapolate_trend='freq'\<close>; its four series are
  returned as they are, each under its own name, and an exception of the library is the
  result of the call.\<close>

lemma detect_seasonal_pattern_calls_library:
  assumes "\<not> int (length (monthly_totals data)) < 2 * period"
  shows "detect_seasonal_pattern seasonal_decompose data period =
     (case seasonal_decompose
             \<lparr> dc_series = monthly_totals data, dc_model = ''additive'', dc_period = period,
               dc_extrapolate_trend = ''freq'' \<rparr> of
        Inl e \<Rightarrow>
          (Inl e, [\<lparr> dc_series = monthly_totals data, dc_model = ''additive'',
                     dc_period = period, dc_extrapolate_trend = ''freq'' \<rparr>])
      | Inr d \<Rightarrow>
          (Inr (Components (dec_trend d) (dec_seasonal d) (dec_resid d) (dec_observed d)),
           [\<lparr> dc_series = monthly_totals data, dc_model = ''additive'',
              dc_period = period, dc_extrapolate_trend = ''freq'' \<rparr>]))"
  using assms by (simp add: detect_seasonal_pattern_def Let_def)

lemma upt_small: "[0..<4] = [0, 1, 2, 3]" "[0..<3] = [0, 1, 2]" "[0..<2] = [0, 1]" "[1..<2] = [1]"
  by (simp_all add: upt_rec)

section \<open>Properties\<close>

text \<open>
  C1. If the number of monthly buckets is less than \<open>2 * period\<close>, then
  \<open>detect_seasonal_pattern\<close> returns the insufficient-data result with
  \<open>required_periods = 2 * period\<close> and \<open>available_periods\<close> the number of buckets, and
  it makes no call to the decomposition algorithm, whatever that algorithm is.
\<close>

theorem detect_seasonal_pattern_insufficient:
  assumes "0 < period"
    and "int (length (monthly_totals data)) < 2 * period"
  shows "detect_seasonal_pattern seasonal_decompose data period =
           (Inr (Insufficient ''Insufficient data for seasonal decomposition''
                   (2 * period) (length (monthly_totals data))), [])"
  using assms by (simp add: detect_seasonal_pattern_def Let_def)

theorem detect_seasonal_pattern_insufficient_witness:
  "(0::int) < 12 \<and> int (length (monthly_totals (init [row 2024 1 15 5]))) < 2 * 12 \<and>
   detect_seasonal_pattern seasonal_decompose_additive (init [row 2024 1 15 5]) 12 =
     (Inr (Insufficient ''Insufficient data for seasonal decomposition'' 24 1), []) \<and>
   detect_seasonal_pattern (\<lambda>c. Inl ValueError) (init [row 2024 1 15 5]) 12 =
     (Inr (Insufficient ''Insufficient data for seasonal decomposition'' 24 1), [])"
proof -
  have n: "length (monthly_totals (init [row 2024 1 15 5])) = 1"
    by (simp add: table_defs monthly_defs)
  show ?thesis
    using detect_seasonal_pattern_insufficient [of 12 "init [row 2024 1 15 5]"] n by simp
qed

text \<open>
  C2. Where \<open>detect_seasonal_pattern\<close> returns the four series, they have the keys of the
  monthly totals, in their order; at every key the four values are numbers (none is
  \<open>NaN\<close>: the trend covers the whole span, its two ends included), the observed value is
  the monthly total, and \<open>observed = trend + seasonal + residual\<close>, exactly (rounding is
  not modelled). This is proved of the additive decomposition as the spec describes it.
\<close>

theorem detect_seasonal_pattern_additive_identity:
  assumes "detect_seasonal_pattern seasonal_decompose_additive data period =
             (Inr (Components tr se re ob), calls)"
  shows "map fst tr = map fst (monthly_totals data) \<and>
         map fst se = map fst (monthly_totals data) \<and>
         map fst re = map fst (monthly_totals data) \<and>
         map fst ob = map fst (monthly_totals data) \<and>
         (\<forall>i<length (monthly_totals data).
            \<exists>x t s r. snd (ob ! i) = Num x \<and> snd (tr ! i) = Num t \<and>
                       snd (se ! i) = Num s \<and> snd (re ! i) = Num r \<and>
                       x = real_of_int (snd (monthly_totals data ! i)) \<and>
                       x = t + s + r)"
proof -
  let ?call = "\<lparr> dc_series = monthly_totals data, dc_model = ''additive'',
                  dc_period = period, dc_extrapolate_trend = ''freq'' \<rparr>"
  from assms have enough: "\<not> int (length (monthly_totals data)) < 2 * period"
    by (auto simp: detect_seasonal_pattern_def Let_def split: if_splits)
  with assms obtain d where d: "seasonal_decompose_additive ?call = Inr d"
    and c: "tr = dec_trend d" "se = dec_seasonal d" "re = dec_resid d" "ob = dec_observed d"
    by (auto simp: detect_seasonal_pattern_def Let_def split: sum.splits)
  from seasonal_decompose_additive_Inr [OF d] have p: "1 \<le> period" by simp
  from seasonal_decompose_additive_result [of ?call] p enough d
  have keys: "map fst (dec_trend d) = map fst (monthly_totals data)"
      "map fst (dec_seasonal d) = map fst (monthly_totals data)"
      "map fst (dec_resid d) = map fst (monthly_totals data)"
      "map fst (dec_observed d) = map fst (monthly_totals data)"
    and vals: "\<forall>i<length (monthly_totals data).
        \<exists>t s. snd (dec_observed d ! i) = Num (real_of_int (snd (monthly_totals data ! i))) \<and>
              snd (dec_trend d ! i) = Num t \<and>
              snd (dec_seasonal d ! i) = Num s \<and>
              snd (dec_resid d ! i) = Num (real_of_int (snd (monthly_totals data ! i)) - t - s)"
    by auto
  have "\<exists>x t s r. snd (ob ! i) = Num x \<and> snd (tr ! i) = Num t \<and>
                       snd (se ! i) = Num s \<and> snd (re ! i) = Num r \<and>
                       x = real_of_int (snd (monthly_totals data ! i)) \<and>
                       x = t + s + r"
    if "i < length (monthly_totals data)" for i
  proof -
    from vals that obtain t s where
      "snd (dec_observed d ! i) = Num (real_of_int (snd (monthly_totals data ! i)))"
      "snd (dec_trend d ! i) = Num t" "snd (dec_seasonal d ! i) = Num s"
      "snd (dec_resid d ! i) = Num (real_of_int (snd (monthly_totals data ! i)) - t - s)"
      by blast
    then show ?thesis unfolding c by simp
  qed
  with keys show ?thesis unfolding c by blast
qed

theorem detect_seasonal_pattern_additive_identity_witness:
  "detect_seasonal_pattern seasonal_decompose_additive
     (init [row 2024 2 10 3, row 2024 3 10 2, row 2024 4 10 4, row 2024 5 10 3]) 2 =
     (Inr (Components
        [(Timestamp 2024 2 29, Num (11/8)), (Timestamp 2024 3 31, Num (11/4)),
         (Timestamp 2024 4 30, Num (13/4)), (Timestamp 2024 5 31, Num (11/2))]
        [(Timestamp 2024 2 29, Num (45/32)), (Timestamp 2024 3 31, Num (- 45/32)),
         (Timestamp 2024 4 30, Num (45/32)), (Timestamp 2024 5 31, Num (- 45/32))]
        [(Timestamp 2024 2 29, Num (7/32)), (Timestamp 2024 3 31, Num (21/32)),
         (Timestamp 2024 4 30, Num (- 21/32)), (Timestamp 2024 5 31, Num (- 35/32))]
        [(Timestamp 2024 2 29, Num 3), (Timestamp 2024 3 31, Num 2),
         (Timestamp 2024 4 30, Num 4), (Timestamp 2024 5 31, Num 3)]),
      [\<lparr> dc_series = [(Timestamp 2024 2 29, 3), (Timestamp 2024 3 31, 2),
                      (Timestamp 2024 4 30, 4), (Timestamp 2024 5 31, 3)],
         dc_model = ''additive'', dc_period = 2, dc_extrapolate_trend = ''freq'' \<rparr>]) \<and>
   map fst [(Timestamp 2024 2 29, Num (11/8)), (Timestamp 2024 3 31, Num (11/4)),
         (Timestamp 2024 4 30, Num (13/4)), (Timestamp 2024 5 31, Num (11/2))] =
     map fst (monthly_totals (init [row 2024 2 10 3, row 2024 3 10 2, row 2024 4 10 4, row 2024 5 10 3])) \<and>
   (3::real) = 11/8 + 45/32 + 7/32"
proof -
  let ?D = "init [row 2024 2 10 3, row 2024 3 10 2, row 2024 4 10 4, row 2024 5 10 3]"
  have m: "monthly_totals ?D =
     [(Timestamp 2024 2 29, 3), (Timestamp 2024 3 31, 2), (Timestamp 2024 4 30, 4),
      (Timestamp 2024 5 31, 3)]"
    by (simp add: table_defs monthly_defs)
  have cf: "convolution_filter [3, 2, 4, 3] 2 = [NaN, Num (11/4), Num (13/4), NaN]"
    by (simp add: convolution_filter_def filt_def upt_small)
  have ex: "extrapolate_trend [NaN, Num (11/4), Num (13/4), NaN] 2 =
      [Num (11/8), Num (11/4), Num (13/4), Num (11/2)]"
    by (simp add: extrapolate_trend_def isnan_def Let_def upt_small line_value_def lstsq_line_def)
  have r: "detect_seasonal_pattern seasonal_decompose_additive ?D 2 =
     (Inr (Components
        [(Timestamp 2024 2 29, Num (11/8)), (Timestamp 2024 3 31, Num (11/4)),
         (Timestamp 2024 4 30, Num (13/4)), (Timestamp 2024 5 31, Num (11/2))]
        [(Timestamp 2024 2 29, Num (45/32)), (Timestamp 2024 3 31, Num (- 45/32)),
         (Timestamp 2024 4 30, Num (45/32)), (Timestamp 2024 5 31, Num (- 45/32))]
        [(Timestamp 2024 2 29, Num (7/32)), (Timestamp 2024 3 31, Num (21/32)),
         (Timestamp 2024 4 30, Num (- 21/32)), (Timestamp 2024 5 31, Num (- 35/32))]
        [(Timestamp 2024 2 29, Num 3), (Timestamp 2024 3 31, Num 2),
         (Timestamp 2024 4 30, Num 4), (Timestamp 2024 5 31, Num 3)]),
      [\<lparr> dc_series = [(Timestamp 2024 2 29, 3), (Timestamp 2024 3 31, 2),
                      (Timestamp 2024 4 30, 4), (Timestamp 2024 5 31, 3)],
         dc_model = ''additive'', dc_period = 2, dc_extrapolate_trend = ''freq'' \<rparr>])"
    unfolding detect_seasonal_pattern_def m
    by (simp add: seasonal_decompose_additive_def Let_def cf ex upt_small seasonal_mean_def
        nanmean_def np_mean_def mean_def)
  show ?thesis
    using detect_seasonal_pattern_additive_identity [OF r] r by simp
qed



text \<open>
  C4. \<open>detect_anomalous_periods\<close> returns the empty list on an empty table, with fewer
  than two monthly buckets (the standard deviation is \<open>NaN\<close>), and with two or more
  buckets whose standard deviation is exactly zero (every z-score is \<open>0 / 0 = NaN\<close>, and no
  comparison with \<open>NaN\<close> holds). The division is the float division of numpy, which
  returns a special value and raises nothing.
\<close>

theorem detect_anomalous_periods_no_division_error:
  "detect_anomalous_periods (init []) threshold = [] \<and>
   (length (monthly_totals data) < 2 \<longrightarrow> detect_anomalous_periods data threshold = []) \<and>
   (2 \<le> length (monthly_totals data) \<and>
      std (map (\<lambda>(d, e). real_of_int e) (monthly_totals data)) = Num 0
    \<longrightarrow> detect_anomalous_periods data threshold = [])"
proof -
  have "detect_anomalous_periods (init []) threshold = []"
    by (simp add: detect_anomalous_periods_def table_defs monthly_totals_def z_scores_def)
  moreover have "detect_anomalous_periods data threshold = []"
    if "length (monthly_totals data) < 2"
    using that by (intro no_anomalies_if_NaN z_scores_NaN) simp
  moreover have "detect_anomalous_periods data threshold = []"
    if "std (map (\<lambda>(d, e). real_of_int e) (monthly_totals data)) = Num 0"
    using that by (intro no_anomalies_if_NaN z_scores_NaN) simp
  ultimately show ?thesis by blast
qed

theorem detect_anomalous_periods_no_division_error_witness:
  "length (monthly_totals (init [row 2024 2 10 5])) < 2 \<and>
   detect_anomalous_periods (init [row 2024 2 10 5]) (Num 2) = [] \<and>
   2 \<le> length (monthly_totals (init [row 2024 2 10 5, row 2024 3 10 5])) \<and>
   std (map (\<lambda>(d, e). real_of_int e) (monthly_totals (init [row 2024 2 10 5, row 2024 3 10 5]))) = Num 0 \<and>
   detect_anomalous_periods (init [row 2024 2 10 5, row 2024 3 10 5]) (Num 2) = []"
proof -
  have a: "length (monthly_totals (init [row 2024 2 10 5])) < 2"
    by (simp add: table_defs monthly_defs)
  have m: "monthly_totals (init [row 2024 2 10 5, row 2024 3 10 5]) =
      [(Timestamp 2024 2 29, 5), (Timestamp 2024 3 31, 5)]"
    by (simp add: table_defs monthly_defs)
  have b: "2 \<le> length (monthly_totals (init [row 2024 2 10 5, row 2024 3 10 5]))"
    by (simp add: m)
  have c: "std (map (\<lambda>(d, e). real_of_int e) (monthly_totals (init [row 2024 2 10 5, row 2024 3 10 5]))) = Num 0"
    by (simp add: m std_def)
  show ?thesis
    using detect_anomalous_periods_no_division_error [of "Num 2" "init [row 2024 2 10 5]"]
      detect_anomalous_periods_no_division_error [of "Num 2" "init [row 2024 2 10 5, row 2024 3 10 5]"]
      a b c by blast
qed

text \<open>
  C5, as amended. \<open>identify_peak_months\<close> returns one entry for each month number that
  occurs in the table, each once and all within 1..12; the value of an entry is the mean
  of the enrolments of the rows of that month number, and the entries are in descending
  order of that mean. The number of entries is the number of distinct month numbers in
  the table, so it is 12 only when all twelve occur. \<open>identify_peak_quarters\<close> does the
  same with the quarters, within 1..4.
\<close>

theorem identify_peak_months_quarters:
  assumes "\<forall>r \<in> set rows. valid_date (date r)"
  shows "distinct (map fst (identify_peak_months (init rows))) \<and>
         set (map fst (identify_peak_months (init rows))) = (\<lambda>r. ts_month (date r)) ` set rows \<and>
         set (map fst (identify_peak_months (init rows))) \<subseteq> {1..12} \<and>
         length (identify_peak_months (init rows)) = card ((\<lambda>r. ts_month (date r)) ` set rows) \<and>
         (\<forall>kv \<in> set (identify_peak_months (init rows)).
            snd kv =
              real_of_int (sum_list (map enrolments
                             (filter (\<lambda>r. month r = fst kv) (init rows))))
                / real (length (filter (\<lambda>r. month r = fst kv) (init rows)))) \<and>
         sorted_wrt (\<lambda>a b. snd b \<le> snd a) (identify_peak_months (init rows)) \<and>
         distinct (map fst (identify_peak_quarters (init rows))) \<and>
         set (map fst (identify_peak_quarters (init rows))) =
           (\<lambda>r. (ts_month (date r) - 1) div 3 + 1) ` set rows \<and>
         set (map fst (identify_peak_quarters (init rows))) \<subseteq> {1..4} \<and>
         length (identify_peak_quarters (init rows)) =
           card ((\<lambda>r. (ts_month (date r) - 1) div 3 + 1) ` set rows) \<and>
         (\<forall>kv \<in> set (identify_peak_quarters (init rows)).
            snd kv =
              real_of_int (sum_list (map enrolments
                             (filter (\<lambda>r. quarter r = fst kv) (init rows))))
                / real (length (filter (\<lambda>r. quarter r = fst kv) (init rows)))) \<and>
         sorted_wrt (\<lambda>a b. snd b \<le> snd a) (identify_peak_quarters (init rows))"
proof -
  have m: "month ` set (init rows) = (\<lambda>r. ts_month (date r)) ` set rows"
    by (simp add: set_init image_image)
  have q: "quarter ` set (init rows) = (\<lambda>r. (ts_month (date r) - 1) div 3 + 1) ` set rows"
    by (simp add: set_init image_image)
  have mr: "(\<lambda>r. ts_month (date r)) ` set rows \<subseteq> {1..12}"
    using assms valid_month_range by blast
  have qr: "(\<lambda>r. (ts_month (date r) - 1) div 3 + 1) ` set rows \<subseteq> {1..4}"
    using assms valid_month_range by blast
  show ?thesis
    unfolding identify_peak_months_def identify_peak_quarters_def
    using groupby_ranking [of month "init rows"] groupby_ranking [of quarter "init rows"] mr qr
    unfolding m q by simp
qed

theorem identify_peak_months_quarters_witness:
  "valid_date (date (row 2024 2 10 5)) \<and> valid_date (date (row 2024 7 2 20)) \<and>
   valid_date (date (row 2025 2 11 7)) \<and> valid_date (date (row 2026 2 12 12)) \<and>
   identify_peak_months (init [row 2024 2 10 5, row 2024 7 2 20, row 2025 2 11 7, row 2026 2 12 12]) = [(7, 20), (2, 8)] \<and>
   identify_peak_quarters (init [row 2024 2 10 5, row 2024 7 2 20, row 2025 2 11 7, row 2026 2 12 12]) = [(3, 20), (1, 8)] \<and>
   length (identify_peak_months (init [row 2024 2 10 5, row 2024 7 2 20, row 2025 2 11 7, row 2026 2 12 12])) = card ((\<lambda>r. ts_month (date r)) ` set [row 2024 2 10 5, row 2024 7 2 20, row 2025 2 11 7, row 2026 2 12 12])"
proof -
  have v: "\<forall>r \<in> set [row 2024 2 10 5, row 2024 7 2 20, row 2025 2 11 7, row 2026 2 12 12]. valid_date (date r)"
    by (simp add: row_def valid_date_def days_in_month_def is_leap_year_def)
  have pm: "identify_peak_months (init [row 2024 2 10 5, row 2024 7 2 20, row 2025 2 11 7, row 2026 2 12 12]) = [(7, 20), (2, 8)]"
    by (simp add: identify_peak_months_def sort_values_desc_def groupby_mean_def table_defs
        less_prod_def less_eq_prod_def)
  have pq: "identify_peak_quarters (init [row 2024 2 10 5, row 2024 7 2 20, row 2025 2 11 7, row 2026 2 12 12]) = [(3, 20), (1, 8)]"
    by (simp add: identify_peak_quarters_def sort_values_desc_def groupby_mean_def table_defs
        less_prod_def less_eq_prod_def)
  show ?thesis
    using identify_peak_months_quarters [OF v] v pm pq by simp
qed

text \<open>The claim as stated fails for a table with a single row: one month and one
  quarter are returned.\<close>

theorem identify_peak_months_quarters_counterexample:
  "init [row 2024 2 10 5] \<noteq> [] \<and>
   identify_peak_months (init [row 2024 2 10 5]) = [(2, 5)] \<and>
   length (identify_peak_months (init [row 2024 2 10 5])) \<noteq> 12 \<and>
   identify_peak_quarters (init [row 2024 2 10 5]) = [(1, 5)] \<and>
   length (identify_peak_quarters (init [row 2024 2 10 5])) \<noteq> 4"
  by (simp add: identify_peak_months_def identify_peak_quarters_def sort_values_desc_def
      groupby_mean_def table_defs)

text \<open>
  C6. The claim is that \<open>calculate_seasonality_strength\<close> is in the interval from 0 to 1
  whenever the mean of the monthly means is not zero. For a table whose rows are all in
  one calendar month the mean is not zero, the standard deviation of the single monthly
  mean is \<open>NaN\<close>, and so is the result: \<open>min(cv, 1.0)\<close> returns its first argument when
  the comparison with it is false.
\<close>

theorem seasonality_strength_single_month:
  "mean (map snd (groupby_mean month (init [row 2024 2 10 5]))) = Num 5 \<and>
   std (map snd (groupby_mean month (init [row 2024 2 10 5]))) = NaN \<and>
   calculate_seasonality_strength (init [row 2024 2 10 5]) = NaN"
  by (simp add: calculate_seasonality_strength_def groupby_mean_def table_defs mean_def std_def
      py_min_def)

text \<open>
  C7, as amended. When there is no monthly bucket, the summary's
  \<open>average_monthly_enrolments\<close> is \<open>NaN\<close>: the mean of an empty series, returned as it is;
  nothing is raised and no other value stands for it.
\<close>

theorem summary_average_of_no_buckets:
  assumes "monthly_totals data = []"
  shows "average_monthly_enrolments (get_seasonal_summary data) = NaN"
  using assms by (simp add: get_seasonal_summary_def mean_def)

theorem summary_average_of_no_buckets_witness:
  "monthly_totals (init []) = [] \<and>
   average_monthly_enrolments (get_seasonal_summary (init [])) = NaN"
proof -
  have e: "monthly_totals (init []) = []"
    by (simp add: monthly_totals_def table_defs)
  show ?thesis
    using summary_average_of_no_buckets [OF e] e by simp
qed

text \<open>The claim as stated (a defined error or a documented sentinel, never an unchecked
  \<open>NaN\<close>) fails for the empty table.\<close>

theorem summary_average_counterexample:
  "monthly_totals (init []) = [] \<and>
   average_monthly_enrolments (get_seasonal_summary (init [])) = NaN \<and>
   average_monthly_enrolments (get_seasonal_summary (init [])) \<noteq> Num 0"
  by (simp add: get_seasonal_summary_def mean_def monthly_totals_def table_defs)

text \<open>
  C8. The claim is that the prepared records are in ascending order of the timestamps,
  ties in the order of the input. The constructor sorts the \<open>date\<close> column before
  \<open>_prepare_data\<close> converts it: a column of strings is sorted as strings. For the table
  of the two rows \<open>10/01/2023\<close> and \<open>02/01/2024\<close> the prepared table has 1 February 2024
  before 1 October 2023.
\<close>

theorem init_object_not_chronological:
  "init_object [\<lparr>date = ''10/01/2023'', enrolments = 1\<rparr>,
                \<lparr>date = ''02/01/2024'', enrolments = 2\<rparr>] =
     Inr [\<lparr>date = Timestamp 2024 2 1, enrolments = 2, month = 2, quarter = 1, year = 2024\<rparr>,
          \<lparr>date = Timestamp 2023 10 1, enrolments = 1, month = 10, quarter = 4, year = 2023\<rparr>] \<and>
   \<not> sorted (map (\<lambda>r. ts_key (date r))
        [\<lparr>date = Timestamp 2024 2 1, enrolments = 2, month = 2, quarter = 1, year = 2024\<rparr>,
         \<lparr>date = Timestamp 2023 10 1, enrolments = 1, month = 10, quarter = 4,
            year = 2023\<rparr>])"
proof -
  have s: "sort_values_object [\<lparr>date = ''10/01/2023'', enrolments = 1\<rparr>,
                \<lparr>date = ''02/01/2024'', enrolments = 2\<rparr>] =
           [\<lparr>date = ''02/01/2024'', enrolments = 2\<rparr>, \<lparr>date = ''10/01/2023'', enrolments = 1\<rparr>]"
    by (simp add: sort_values_object_def)
  have p: "to_datetime [''02/01/2024'', ''10/01/2023''] =
      Inr [Timestamp 2024 2 1, Timestamp 2023 10 1]"
    by (simp add: to_datetime_def guess_datetime_format_def slashed_def dashed_def make_date_def
        digit_value_def valid_date_def days_in_month_def is_leap_year_def)
  show ?thesis
    unfolding init_object_def s
    by (simp add: prepare_data_object_def p prepare_data_def prepare_row_def ts_key_def)
qed

text \<open>
  C9, as amended. The claim says that only months with a record produce a bucket. The
  code bins the whole span: for a non-empty table the buckets are the calendar months
  from the month of the earliest record to the month of the latest, one each and in
  order; a bucket is labelled by the last day of its month, its total is the (\<open>int64\<close>)
  sum of the enrolments of the rows of that month, and a month of the span without rows
  has a bucket with total 0 (which enters the mean and the standard deviation).
\<close>

theorem monthly_totals_span:
  assumes "data \<noteq> []"
  shows "map (\<lambda>b. month_index (fst b)) (monthly_totals data) =
           [Min (set (map (\<lambda>r. month_index (date r)) data)) ..
            Max (set (map (\<lambda>r. month_index (date r)) data))] \<and>
         (\<forall>b \<in> set (monthly_totals data).
            fst b = month_end (month_index (fst b)) \<and>
            snd b = int64 (sum_list (map enrolments
                      (filter (\<lambda>r. month_index (date r) = month_index (fst b)) data))) \<and>
            ((\<forall>r \<in> set data. month_index (date r) \<noteq> month_index (fst b)) \<longrightarrow> snd b = 0))"
proof -
  have "snd b = 0"
    if "b \<in> set (monthly_totals data)"
      and "\<forall>r \<in> set data. month_index (date r) \<noteq> month_index (fst b)" for b
  proof -
    have "filter (\<lambda>r. month_index (date r) = month_index (fst b)) data = []"
      using that(2) by (simp add: filter_empty_conv)
    with monthly_totals_bucket [OF that(1)] show ?thesis by simp
  qed
  then show ?thesis
    using monthly_totals_index [OF assms] monthly_totals_bucket by blast
qed

theorem monthly_totals_span_witness:
  "init [row 2024 2 10 7, row 2024 4 10 5] \<noteq> [] \<and>
   map (\<lambda>b. month_index (fst b)) (monthly_totals (init [row 2024 2 10 7, row 2024 4 10 5])) =
     [24289, 24290, 24291] \<and>
   map snd (monthly_totals (init [row 2024 2 10 7, row 2024 4 10 5])) = [7, 0, 5]"
proof -
  have ne: "init [row 2024 2 10 7, row 2024 4 10 5] \<noteq> []"
    by (simp add: table_defs)
  have "map snd (monthly_totals (init [row 2024 2 10 7, row 2024 4 10 5])) = [7, 0, 5]"
    by (simp add: table_defs monthly_defs)
  moreover have "[Min (set (map (\<lambda>r. month_index (date r)) (init [row 2024 2 10 7, row 2024 4 10 5]))) ..
            Max (set (map (\<lambda>r. month_index (date r)) (init [row 2024 2 10 7, row 2024 4 10 5])))]
          = [24289, 24290, 24291]"
    by (simp add: table_defs month_index_def)
  ultimately show ?thesis
    using monthly_totals_span [OF ne] ne by simp
qed

text \<open>The claim as stated fails for a table with rows in February and April only:
  March has a bucket, and no row.\<close>

theorem monthly_totals_gap_counterexample:
  "monthly_totals (init [row 2024 2 10 7, row 2024 4 10 5]) =
     [(Timestamp 2024 2 29, 7), (Timestamp 2024 3 31, 0), (Timestamp 2024 4 30, 5)] \<and>
   \<not> (\<forall>b \<in> set (monthly_totals (init [row 2024 2 10 7, row 2024 4 10 5])).
        \<exists>r \<in> set (init [row 2024 2 10 7, row 2024 4 10 5]).
          month_index (date r) = month_index (fst b))"
proof -
  have m: "monthly_totals (init [row 2024 2 10 7, row 2024 4 10 5]) =
     [(Timestamp 2024 2 29, 7), (Timestamp 2024 3 31, 0), (Timestamp 2024 4 30, 5)]"
    by (simp add: table_defs monthly_defs)
  have d: "init [row 2024 2 10 7, row 2024 4 10 5] = 
     [\<lparr>date = Timestamp 2024 2 10, enrolments = 7, month = 2, quarter = 1, year = 2024\<rparr>,
      \<lparr>date = Timestamp 2024 4 10, enrolments = 5, month = 4, quarter = 2, year = 2024\<rparr>]"
    by (simp add: table_defs)
  show ?thesis
    unfolding m unfolding d by (simp add: month_index_def)
qed




end
